theory Spec2Isabelle
  imports Complex_Main
begin

section \<open>Black-Scholes option calculator: embedding of the notebook\<close>

text \<open>
  The notebook \<^verbatim>\<open>black_scholes_model.ipynb\<close> computes with Python floats. The embedding
  idealises them as real numbers: rounding, overflow and NaN are outside the model, while
  every exception that the arithmetic of the notebook can raise on real arguments
  (division by zero, logarithm or square root outside its domain, an unbound global name)
  is a value of the result type.
\<close>

subsection \<open>Python values and exceptions\<close>

datatype error = ZeroDivisionError | ValueError | NameError

text \<open>What \<^verbatim>\<open>implied_volatility\<close> returns: a float, or a message string.\<close>

datatype pyval = Float real | Str string

definition ebind :: "error + 'a \<Rightarrow> ('a \<Rightarrow> error + 'b) \<Rightarrow> error + 'b" where
  "ebind m f = (case m of Inl e \<Rightarrow> Inl e | Inr v \<Rightarrow> f v)"

text \<open>Float division \<^verbatim>\<open>x / y\<close>, \<^verbatim>\<open>math.log\<close> and \<^verbatim>\<open>math.sqrt\<close>.\<close>

definition py_div :: "real \<Rightarrow> real \<Rightarrow> error + real" where
  "py_div x y = (if y = 0 then Inl ZeroDivisionError else Inr (x / y))"

definition py_log :: "real \<Rightarrow> error + real" where
  "py_log x = (if x \<le> 0 then Inl ValueError else Inr (ln x))"

definition py_sqrt :: "real \<Rightarrow> error + real" where
  "py_sqrt x = (if x < 0 then Inl ValueError else Inr (sqrt x))"

subsection \<open>The standard normal distribution\<close>

text \<open>
  Modelled from the spec: \<^verbatim>\<open>scipy.stats.norm\<close> is a library, its code is not part of the
  repository. The spec gives \<open>\<Phi>(x) = (1/2)(1 + erf(x/\<surd>2))\<close> and
  \<open>\<phi>(x) = (1/\<surd>(2\<pi>)) exp(-x\<^sup>2/2)\<close>; the error function is its power series
  \<open>erf x = 2/\<surd>\<pi> \<Sum>k. (-1)\<^sup>k x\<^bsup>2k+1\<^esup> / (k! (2k+1))\<close>.
\<close>

definition erf_coeff :: "nat \<Rightarrow> real" where
  "erf_coeff n = (if odd n then (- 1) ^ (n div 2) / (fact (n div 2) * real n) else 0)"

definition erf :: "real \<Rightarrow> real" where
  "erf x = 2 / sqrt pi * (\<Sum>n. erf_coeff n * x ^ n)"

text \<open>\<^verbatim>\<open>norm.cdf\<close> and \<^verbatim>\<open>norm.pdf\<close>.\<close>

definition norm_cdf :: "real \<Rightarrow> real" where
  "norm_cdf x = 1 / 2 * (1 + erf (x / sqrt 2))"

definition norm_pdf :: "real \<Rightarrow> real" where
  "norm_pdf x = exp (- (x\<^sup>2) / 2) / sqrt (2 * pi)"

subsection \<open>Pricing\<close>

text \<open>
  \<^verbatim>\<open>def d1(S,T,K,r,sigma)\<close> and \<^verbatim>\<open>def d2(S,T,K,r,sigma)\<close>: the parameters are declared in
  the order spot, time, strike. Python evaluates \<^verbatim>\<open>log(S/K)\<close> first, then the numerator,
  then \<^verbatim>\<open>sigma*sqrt(T)\<close>, then the quotient.
\<close>

definition d1 :: "real \<Rightarrow> real \<Rightarrow> real \<Rightarrow> real \<Rightarrow> real \<Rightarrow> error + real" where
  "d1 S T K r sigma =
     ebind (py_div S K) (\<lambda>q.
     ebind (py_log q) (\<lambda>l.
     ebind (py_sqrt T) (\<lambda>s.
     py_div (l + (r + sigma\<^sup>2 / 2) * T) (sigma * s))))"

definition d2 :: "real \<Rightarrow> real \<Rightarrow> real \<Rightarrow> real \<Rightarrow> real \<Rightarrow> error + real" where
  "d2 S T K r sigma =
     ebind (py_div S K) (\<lambda>q.
     ebind (py_log q) (\<lambda>l.
     ebind (py_sqrt T) (\<lambda>s.
     py_div (l + (r - sigma\<^sup>2 / 2) * T) (sigma * s))))"

text \<open>
  \<^verbatim>\<open>def call_price(S,K,T,r,sigma)\<close> and the other callers pass their arguments to
  \<^verbatim>\<open>d1\<close> and \<^verbatim>\<open>d2\<close> positionally as \<^verbatim>\<open>(S,K,T,r,sigma)\<close>; the embedding applies
  \<open>d1\<close> and \<open>d2\<close> in the same positions.
\<close>

definition call_price :: "real \<Rightarrow> real \<Rightarrow> real \<Rightarrow> real \<Rightarrow> real \<Rightarrow> error + real" where
  "call_price S K T r sigma =
     ebind (d1 S K T r sigma) (\<lambda>a.
     ebind (d2 S K T r sigma) (\<lambda>b.
     Inr (S * norm_cdf a - K * exp (- r * T) * norm_cdf b)))"

definition put_price :: "real \<Rightarrow> real \<Rightarrow> real \<Rightarrow> real \<Rightarrow> real \<Rightarrow> error + real" where
  "put_price S K T r sigma =
     ebind (d2 S K T r sigma) (\<lambda>b.
     ebind (d1 S K T r sigma) (\<lambda>a.
     Inr (K * exp (- r * T) * norm_cdf (- b) - S * norm_cdf (- a))))"

subsection \<open>Greeks\<close>

definition call_delta :: "real \<Rightarrow> real \<Rightarrow> real \<Rightarrow> real \<Rightarrow> real \<Rightarrow> error + real" where
  "call_delta S K T r sigma = ebind (d1 S K T r sigma) (\<lambda>a. Inr (norm_cdf a))"

definition call_gamma :: "real \<Rightarrow> real \<Rightarrow> real \<Rightarrow> real \<Rightarrow> real \<Rightarrow> error + real" where
  "call_gamma S K T r sigma =
     ebind (d1 S K T r sigma) (\<lambda>a.
     ebind (py_sqrt T) (\<lambda>s.
     py_div (norm_pdf a) (S * sigma * s)))"

definition call_vega :: "real \<Rightarrow> real \<Rightarrow> real \<Rightarrow> real \<Rightarrow> real \<Rightarrow> error + real" where
  "call_vega S K T r sigma =
     ebind (d1 S K T r sigma) (\<lambda>a.
     ebind (py_sqrt T) (\<lambda>s.
     Inr (1 / 100 * (S * norm_pdf a * s))))"

definition call_theta :: "real \<Rightarrow> real \<Rightarrow> real \<Rightarrow> real \<Rightarrow> real \<Rightarrow> error + real" where
  "call_theta S K T r sigma =
     ebind (d1 S K T r sigma) (\<lambda>a.
     ebind (py_sqrt T) (\<lambda>s.
     ebind (py_div (S * norm_pdf a * sigma) (2 * s)) (\<lambda>q.
     ebind (d2 S K T r sigma) (\<lambda>b.
     Inr (1 / 100 * (- q - r * K * exp (- r * T) * norm_cdf b))))))"

definition call_rho :: "real \<Rightarrow> real \<Rightarrow> real \<Rightarrow> real \<Rightarrow> real \<Rightarrow> error + real" where
  "call_rho S K T r sigma =
     ebind (d2 S K T r sigma) (\<lambda>b. Inr (1 / 100 * (K * T * exp (- r * T) * norm_cdf b)))"

definition put_delta :: "real \<Rightarrow> real \<Rightarrow> real \<Rightarrow> real \<Rightarrow> real \<Rightarrow> error + real" where
  "put_delta S K T r sigma = ebind (d1 S K T r sigma) (\<lambda>a. Inr (- norm_cdf (- a)))"

definition put_gamma :: "real \<Rightarrow> real \<Rightarrow> real \<Rightarrow> real \<Rightarrow> real \<Rightarrow> error + real" where
  "put_gamma S K T r sigma =
     ebind (d1 S K T r sigma) (\<lambda>a.
     ebind (py_sqrt T) (\<lambda>s.
     py_div (norm_pdf a) (S * sigma * s)))"

definition put_vega :: "real \<Rightarrow> real \<Rightarrow> real \<Rightarrow> real \<Rightarrow> real \<Rightarrow> error + real" where
  "put_vega S K T r sigma =
     ebind (d1 S K T r sigma) (\<lambda>a.
     ebind (py_sqrt T) (\<lambda>s.
     Inr (1 / 100 * (S * norm_pdf a * s))))"

definition put_theta :: "real \<Rightarrow> real \<Rightarrow> real \<Rightarrow> real \<Rightarrow> real \<Rightarrow> error + real" where
  "put_theta S K T r sigma =
     ebind (d1 S K T r sigma) (\<lambda>a.
     ebind (py_sqrt T) (\<lambda>s.
     ebind (py_div (S * norm_pdf a * sigma) (2 * s)) (\<lambda>q.
     ebind (d2 S K T r sigma) (\<lambda>b.
     Inr (1 / 100 * (- q + r * K * exp (- r * T) * norm_cdf (- b)))))))"

definition put_rho :: "real \<Rightarrow> real \<Rightarrow> real \<Rightarrow> real \<Rightarrow> real \<Rightarrow> error + real" where
  "put_rho S K T r sigma =
     ebind (d2 S K T r sigma) (\<lambda>b. Inr (1 / 100 * (- K * T * exp (- r * T) * norm_cdf (- b))))"

subsection \<open>Implied volatility\<close>

text \<open>
  \<^verbatim>\<open>implied_volatility(Option_Price,S,K,T,r)\<close> reads the name \<^verbatim>\<open>option\<close>, which is not
  one of its parameters: it is a global of the notebook, bound by a later cell. The record
  holds that global (\<open>None\<close> while the name is unbound); its extension stands for the rest
  of the enclosing state.
\<close>

record globals =
  option :: "string option"

text \<open>
  The right-hand sides of the two assignments to \<^verbatim>\<open>Option_Price_implied\<close>, in the
  branch \<^verbatim>\<open>option == 'C'\<close> and in the \<^verbatim>\<open>else\<close> branch.
\<close>

definition Option_Price_implied_C :: "real \<Rightarrow> real \<Rightarrow> real \<Rightarrow> real \<Rightarrow> real \<Rightarrow> error + real" where
  "Option_Price_implied_C S K T r sigma =
     ebind (d1 S K T r sigma) (\<lambda>a.
     ebind (d2 S K T r sigma) (\<lambda>b.
     Inr (S * norm_cdf a - K * exp (- r * T) * norm_cdf b)))"

definition Option_Price_implied_P :: "real \<Rightarrow> real \<Rightarrow> real \<Rightarrow> real \<Rightarrow> real \<Rightarrow> error + real" where
  "Option_Price_implied_P S K T r sigma =
     ebind (call_price S K T r sigma) (\<lambda>c. Inr (K * exp (- r * T) - S + c))"

text \<open>
  The two \<^verbatim>\<open>while sigma < 1\<close> loops differ only in the price expression and in the
  message returned after the loop, so one function, taking both, embeds them. The loop
  state is \<^verbatim>\<open>sigma\<close>; each iteration that does not return adds \<open>0.001\<close> to it.
\<close>

function vol_loop :: "(real \<Rightarrow> error + real) \<Rightarrow> string \<Rightarrow> real \<Rightarrow> real \<Rightarrow> error + pyval" where
  "vol_loop price msg Option_Price sigma =
     (if sigma < 1 then
        (case price sigma of
           Inl e \<Rightarrow> Inl e
         | Inr Option_Price_implied \<Rightarrow>
             if Option_Price - Option_Price_implied < 1 / 1000 then Inr (Float sigma)
             else vol_loop price msg Option_Price (sigma + 1 / 1000))
      else Inr (Str msg))"
  by pat_completeness auto
termination
proof (relation "measure (\<lambda>(price, msg, Option_Price, sigma). nat \<lceil>(1 - sigma) * 1000\<rceil>)")
  fix price :: "real \<Rightarrow> error + real" and msg :: string and Option_Price sigma x :: real
  assume "sigma < 1"
  then have "0 < \<lceil>(1 - sigma) * 1000\<rceil>" by simp
  moreover have "(1 - (sigma + 1 / 1000)) * 1000 = (1 - sigma) * 1000 - 1"
    by (simp add: algebra_simps)
  then have "\<lceil>(1 - (sigma + 1 / 1000)) * 1000\<rceil> = \<lceil>(1 - sigma) * 1000\<rceil> - 1"
    by (simp only: ceiling_diff_one)
  ultimately show "((price, msg, Option_Price, sigma + 1 / 1000), (price, msg, Option_Price, sigma))
      \<in> measure (\<lambda>(price, msg, Option_Price, sigma). nat \<lceil>(1 - sigma) * 1000\<rceil>)"
    by simp
qed simp

declare vol_loop.simps [simp del]

text \<open>
  The function itself. The diagnostic \<^verbatim>\<open>print\<close> of its arguments comes before the test of
  \<^verbatim>\<open>option\<close> and does not touch the returned value; it is left out.
\<close>

definition implied_volatility ::
  "'a globals_scheme \<Rightarrow> real \<Rightarrow> real \<Rightarrow> real \<Rightarrow> real \<Rightarrow> real \<Rightarrow> error + pyval" where
  "implied_volatility g Option_Price S K T r =
     (case option g of
        None \<Rightarrow> Inl NameError
      | Some opt \<Rightarrow>
          if opt = ''C'' then
            vol_loop (Option_Price_implied_C S K T r)
              ''It could not find the right volatility of the call option.'' Option_Price (1 / 1000)
          else
            vol_loop (Option_Price_implied_P S K T r)
              ''It could not find the right volatility of the put option.'' Option_Price (1 / 1000))"

subsection \<open>Implied volatility with every global name resolved in the state\<close>

text \<open>
  Besides \<^verbatim>\<open>option\<close>, the body of \<^verbatim>\<open>implied_volatility\<close> uses seven more names that are
  neither parameters nor locals: \<^verbatim>\<open>print\<close>, \<^verbatim>\<open>np\<close>, \<^verbatim>\<open>norm\<close>, \<^verbatim>\<open>d1\<close>, \<^verbatim>\<open>d2\<close>,
  \<^verbatim>\<open>exp\<close> and \<^verbatim>\<open>call_price\<close>. Python resolves each of them in the enclosing state at the
  moment it is evaluated, and raises \<^verbatim>\<open>NameError\<close> when it is unbound. The definition of
  \<open>implied_volatility\<close> above fixes the seven to the objects that the notebook binds; the
  record below makes their bindings part of the state. A binding is \<open>None\<close> while the name
  is unbound; a bound name holds what a use of the object yields: for \<^verbatim>\<open>d1\<close>, \<^verbatim>\<open>d2\<close> and
  \<^verbatim>\<open>call_price\<close> the result of a call with five floats, for \<^verbatim>\<open>exp\<close> the result of a call
  with one float, for \<^verbatim>\<open>norm\<close> the result of its method \<^verbatim>\<open>cdf\<close>, for \<^verbatim>\<open>print\<close> and
  \<^verbatim>\<open>np\<close> the library object. What a call yields may depend on further names (the
  notebook's \<^verbatim>\<open>d1\<close> evaluates \<^verbatim>\<open>log\<close> and \<^verbatim>\<open>sqrt\<close>, its \<^verbatim>\<open>call_price\<close> evaluates
  \<^verbatim>\<open>d1\<close>, \<^verbatim>\<open>d2\<close>, \<^verbatim>\<open>norm\<close> and \<^verbatim>\<open>exp\<close>); the binding records the resulting
  behaviour in the state at hand. Objects of other kinds, and functions that change the
  state, are excluded by the types. The names \<^verbatim>\<open>S\<close>, \<^verbatim>\<open>K\<close>, \<^verbatim>\<open>T\<close>, \<^verbatim>\<open>r\<close> and
  \<^verbatim>\<open>sigma\<close>, which the notebook also binds globally, are parameters or locals of the
  function; like every other name they belong to the extension of the record.
\<close>

record names = globals +
  print_g :: "unit option"
  np_g :: "unit option"
  norm_g :: "(real \<Rightarrow> real) option"
  d1_g :: "(real \<Rightarrow> real \<Rightarrow> real \<Rightarrow> real \<Rightarrow> real \<Rightarrow> error + real) option"
  d2_g :: "(real \<Rightarrow> real \<Rightarrow> real \<Rightarrow> real \<Rightarrow> real \<Rightarrow> error + real) option"
  exp_g :: "(real \<Rightarrow> real) option"
  call_price_g :: "(real \<Rightarrow> real \<Rightarrow> real \<Rightarrow> real \<Rightarrow> real \<Rightarrow> error + real) option"





text \<open>
  The state once the cells of the notebook have run: every name bound to the object the
  notebook binds it to, and \<^verbatim>\<open>option\<close> to the string that was entered.
\<close>

definition notebook_state :: "string \<Rightarrow> names" where
  "notebook_state opt =
     \<lparr>option = Some opt, print_g = Some (), np_g = Some (), norm_g = Some norm_cdf,
      d1_g = Some d1, d2_g = Some d2, exp_g = Some exp, call_price_g = Some call_price\<rparr>"

text \<open>
  The state after the assignment \<^verbatim>\<open>d2 = f\<close> has been run in the notebook, for an object
  \<open>f\<close> that behaves as \<open>d2'\<close>: the name \<^verbatim>\<open>d2\<close> holds \<open>d2'\<close>, and the function
  \<^verbatim>\<open>call_price\<close>, whose body evaluates \<^verbatim>\<open>d2\<close> at each call, behaves accordingly.
\<close>

definition notebook_state_d2 ::
  "(real \<Rightarrow> real \<Rightarrow> real \<Rightarrow> real \<Rightarrow> real \<Rightarrow> error + real) \<Rightarrow> string \<Rightarrow> names" where
  "notebook_state_d2 d2' opt =
     \<lparr>option = Some opt, print_g = Some (), np_g = Some (), norm_g = Some norm_cdf,
      d1_g = Some d1, d2_g = Some d2', exp_g = Some exp,
      call_price_g = Some (\<lambda>S K T r sigma.
        ebind (d1 S K T r sigma) (\<lambda>a.
        ebind (d2' S K T r sigma) (\<lambda>b.
        Inr (S * norm_cdf a - K * exp (- r * T) * norm_cdf b))))\<rparr>"

subsection \<open>Values computed when no exception is raised\<close>

text \<open>
  The arithmetic expressions of \<^verbatim>\<open>d1\<close>, \<^verbatim>\<open>d2\<close> and \<^verbatim>\<open>call_price\<close> as real numbers,
  with the parameters in the order of the source: what the three functions return on
  arguments for which Python raises nothing.
\<close>

definition d1_val :: "real \<Rightarrow> real \<Rightarrow> real \<Rightarrow> real \<Rightarrow> real \<Rightarrow> real" where
  "d1_val S T K r sigma = (ln (S / K) + (r + sigma\<^sup>2 / 2) * T) / (sigma * sqrt T)"

definition d2_val :: "real \<Rightarrow> real \<Rightarrow> real \<Rightarrow> real \<Rightarrow> real \<Rightarrow> real" where
  "d2_val S T K r sigma = (ln (S / K) + (r - sigma\<^sup>2 / 2) * T) / (sigma * sqrt T)"

definition call_val :: "real \<Rightarrow> real \<Rightarrow> real \<Rightarrow> real \<Rightarrow> real \<Rightarrow> real" where
  "call_val S K T r sigma =
     S * norm_cdf (d1_val S K T r sigma) - K * exp (- r * T) * norm_cdf (d2_val S K T r sigma)"

subsection \<open>The formulas of the specification\<close>

text \<open>
  The specification states the auxiliary quantities and the prices for the argument order
  spot, strike, time: \<open>d1 = (ln(S/K) + (r + \<sigma>\<^sup>2/2) T) / (\<sigma> \<surd>T)\<close>,
  \<open>d2 = d1 - \<sigma> \<surd>T\<close>, call \<open>= S \<Phi>(d1) - K exp(-r T) \<Phi>(d2)\<close> and
  put \<open>= K exp(-r T) \<Phi>(-d2) - S \<Phi>(-d1)\<close>. These definitions follow its words, for
  comparison with the functions of the notebook.
\<close>

definition spec_d1 :: "real \<Rightarrow> real \<Rightarrow> real \<Rightarrow> real \<Rightarrow> real \<Rightarrow> real" where
  "spec_d1 S K T r sigma = (ln (S / K) + (r + sigma\<^sup>2 / 2) * T) / (sigma * sqrt T)"

definition spec_d2 :: "real \<Rightarrow> real \<Rightarrow> real \<Rightarrow> real \<Rightarrow> real \<Rightarrow> real" where
  "spec_d2 S K T r sigma = spec_d1 S K T r sigma - sigma * sqrt T"

definition spec_call_price :: "real \<Rightarrow> real \<Rightarrow> real \<Rightarrow> real \<Rightarrow> real \<Rightarrow> real" where
  "spec_call_price S K T r sigma =
     S * norm_cdf (spec_d1 S K T r sigma) - K * exp (- r * T) * norm_cdf (spec_d2 S K T r sigma)"

definition spec_put_price :: "real \<Rightarrow> real \<Rightarrow> real \<Rightarrow> real \<Rightarrow> real \<Rightarrow> real" where
  "spec_put_price S K T r sigma =
     K * exp (- r * T) * norm_cdf (- spec_d2 S K T r sigma) - S * norm_cdf (- spec_d1 S K T r sigma)"

text \<open>
  The linear scan as the specification words it: the grid \<open>0.001, 0.002, ...\<close> below
  \<open>1.0\<close>, the first grid point that passes the stopping test, and a fixed answer when
  none does.
\<close>

definition scan_grid :: "real list" where
  "scan_grid = map (\<lambda>k. real k / 1000) [1..<1000]"

definition linear_scan_spec :: "(real \<Rightarrow> bool) \<Rightarrow> pyval \<Rightarrow> pyval" where
  "linear_scan_spec hit notfound =
     (case find hit scan_grid of Some sigma \<Rightarrow> Float sigma | None \<Rightarrow> notfound)"


section \<open>Properties\<close>

subsection \<open>The normal distribution\<close>

lemma erf_series_summable: "summable (\<lambda>n. erf_coeff n * x ^ n)"
proof -
  define g where "g k = (- 1) ^ k * x ^ (2 * k + 1) / (fact k * real (2 * k + 1))" for k
  have "summable (\<lambda>k. \<bar>x\<bar> * ((x\<^sup>2) ^ k /\<^sub>R fact k))"
    by (intro summable_mult sums_summable [OF exp_converges])
  moreover have "norm (g k) \<le> \<bar>x\<bar> * ((x\<^sup>2) ^ k /\<^sub>R fact k)" for k
  proof -
    have "norm (g k) = \<bar>x\<bar> * ((x\<^sup>2) ^ k / fact k) / real (2 * k + 1)"
      by (simp add: g_def abs_mult power_abs power_mult divide_simps)
    also have "\<dots> \<le> \<bar>x\<bar> * ((x\<^sup>2) ^ k / fact k) / 1"
      by (intro divide_left_mono) (auto intro!: mult_nonneg_nonneg divide_nonneg_nonneg)
    finally show ?thesis by (simp add: divide_inverse mult.commute)
  qed
  ultimately have "summable g"
    by (rule summable_comparison_test' [where N = 0]) 
  then have "(\<lambda>n. if even n then 0 else g ((n - 1) div 2)) sums suminf g"
    by (intro sums_if') (rule summable_sums)
  moreover have "(if even n then 0 else g ((n - 1) div 2)) = erf_coeff n * x ^ n" for n
  proof (cases "even n")
    case True
    then show ?thesis by (simp add: erf_coeff_def)
  next
    case False
    then obtain k where "n = 2 * k + 1" by (auto elim: oddE)
    then show ?thesis by (simp add: erf_coeff_def g_def)
  qed
  ultimately show ?thesis by (simp add: sums_iff)
qed

lemma diffs_erf_coeff:
  "diffs erf_coeff n = (if even n then (- 1) ^ (n div 2) / fact (n div 2) else 0)"
  by (simp add: diffs_def erf_coeff_def)

lemma erf_deriv_series_sums: "(\<lambda>n. diffs erf_coeff n * x ^ n) sums exp (- (x\<^sup>2))"
proof -
  let ?f = "\<lambda>k. (- (x\<^sup>2)) ^ k /\<^sub>R fact k"
  have "(\<lambda>n. if even n then ?f (n div 2) else (\<lambda>_. 0) ((n - 1) div 2)) sums (0 + exp (- (x\<^sup>2)))"
    by (intro sums_if exp_converges sums_zero)
  moreover have "(if even n then ?f (n div 2) else 0) = diffs erf_coeff n * x ^ n" for n
  proof (cases "even n")
    case True
    then obtain k where "n = 2 * k" by (auto elim: evenE)
    moreover have "(x\<^sup>2) ^ k = x ^ (2 * k)" by (simp add: power_mult)
    ultimately show ?thesis
      by (simp add: diffs_erf_coeff power_minus [of "x\<^sup>2"] divide_inverse mult_ac)
  next
    case False
    then show ?thesis by (simp add: diffs_erf_coeff)
  qed
  ultimately show ?thesis by simp
qed

lemma DERIV_erf: "DERIV erf x :> 2 / sqrt pi * exp (- (x\<^sup>2))"
proof -
  have "DERIV (\<lambda>x. \<Sum>n. erf_coeff n * x ^ n) x :> (\<Sum>n. diffs erf_coeff n * x ^ n)"
    by (rule termdiffs_strong_converges_everywhere) (rule erf_series_summable)
  also have "(\<Sum>n. diffs erf_coeff n * x ^ n) = exp (- (x\<^sup>2))"
    using erf_deriv_series_sums [of x] by (simp add: sums_iff)
  finally have "DERIV (\<lambda>x. 2 / sqrt pi * (\<Sum>n. erf_coeff n * x ^ n)) x :> 2 / sqrt pi * exp (- (x\<^sup>2))"
    by (rule DERIV_cmult)
  then show ?thesis by (simp add: erf_def [abs_def])
qed

lemma erf_minus: "erf (- x) = - erf x"
proof -
  have "erf_coeff n * (- x) ^ n = - (erf_coeff n * x ^ n)" for n
    by (cases "even n") (simp_all add: erf_coeff_def)
  then have "(\<Sum>n. erf_coeff n * (- x) ^ n) = (\<Sum>n. - (erf_coeff n * x ^ n))" by simp
  also have "\<dots> = - (\<Sum>n. erf_coeff n * x ^ n)"
    by (rule suminf_minus) (rule erf_series_summable)
  finally show ?thesis by (simp add: erf_def)
qed

lemma norm_cdf_minus: "norm_cdf (- x) = 1 - norm_cdf x"
  by (simp add: norm_cdf_def erf_minus field_simps)

lemma norm_cdf_zero: "norm_cdf 0 = 1 / 2"
  using norm_cdf_minus [of 0] by simp

lemma DERIV_norm_cdf: "DERIV norm_cdf x :> norm_pdf x"
proof -
  have "DERIV (\<lambda>x. 1 / 2 * (1 + erf (x / sqrt 2))) x :>
      1 / 2 * (0 + (2 / sqrt pi * exp (- ((x / sqrt 2)\<^sup>2))) * (1 / sqrt 2))"
    by (intro DERIV_cmult DERIV_add DERIV_const DERIV_chain2 [OF DERIV_erf] DERIV_cdivide DERIV_ident)
  moreover have "1 / 2 * (0 + (2 / sqrt pi * exp (- ((x / sqrt 2)\<^sup>2))) * (1 / sqrt 2)) = norm_pdf x"
    by (simp add: norm_pdf_def power_divide real_sqrt_mult)
  ultimately show ?thesis by (simp add: norm_cdf_def [abs_def])
qed

lemma norm_pdf_pos: "0 < norm_pdf x"
  by (simp add: norm_pdf_def)

lemma norm_cdf_strict_mono: "x < y \<Longrightarrow> norm_cdf x < norm_cdf y"
  by (rule DERIV_pos_imp_increasing [of x y norm_cdf]) (auto intro: DERIV_norm_cdf norm_pdf_pos)

lemma norm_cdf_mono: "x \<le> y \<Longrightarrow> norm_cdf x \<le> norm_cdf y"
  using norm_cdf_strict_mono [of x y] by (cases "x = y") auto

subsection \<open>Evaluation of the pricing functions\<close>

lemma d1_Inr:
  assumes "0 < S" "0 < K'" "0 < T'" "sigma \<noteq> 0"
  shows "d1 S T' K' r sigma = Inr (d1_val S T' K' r sigma)"
  using assms
  by (simp add: d1_def d1_val_def ebind_def py_div_def py_log_def py_sqrt_def divide_le_0_iff)

lemma d2_Inr:
  assumes "0 < S" "0 < K'" "0 < T'" "sigma \<noteq> 0"
  shows "d2 S T' K' r sigma = Inr (d2_val S T' K' r sigma)"
  using assms
  by (simp add: d2_def d2_val_def ebind_def py_div_def py_log_def py_sqrt_def divide_le_0_iff)

lemma call_price_Inr:
  assumes "0 < S" "0 < K" "0 < T" "sigma \<noteq> 0"
  shows "call_price S K T r sigma = Inr (call_val S K T r sigma)"
  using assms by (simp add: call_price_def call_val_def d1_Inr d2_Inr ebind_def)

lemma put_price_Inr:
  assumes "0 < S" "0 < K" "0 < T" "sigma \<noteq> 0"
  shows "put_price S K T r sigma =
    Inr (K * exp (- r * T) * norm_cdf (- d2_val S K T r sigma) - S * norm_cdf (- d1_val S K T r sigma))"
  using assms by (simp add: put_price_def d1_Inr d2_Inr ebind_def)

lemma d2_isl_iff: "d2 S T' K' r sigma = Inl e \<longleftrightarrow> d1 S T' K' r sigma = Inl e"
  by (simp add: d1_def d2_def ebind_def py_div_def py_log_def py_sqrt_def)

lemma put_price_parity:
  "put_price S K T r sigma = ebind (call_price S K T r sigma) (\<lambda>c. Inr (K * exp (- r * T) - S + c))"
proof (cases "d1 S K T r sigma")
  case (Inl e)
  then show ?thesis using d2_isl_iff [of S K T r sigma e]
    by (simp add: put_price_def call_price_def ebind_def)
next
  case a: (Inr a)
  show ?thesis
  proof (cases "d2 S K T r sigma")
    case (Inl e)
    then show ?thesis using d2_isl_iff [of S K T r sigma e] a by simp
  next
    case (Inr b)
    then show ?thesis using a
      by (simp add: put_price_def call_price_def ebind_def norm_cdf_minus algebra_simps)
  qed
qed


lemma implied_P_eq_put_price:
  "Option_Price_implied_P S K T r sigma = put_price S K T r sigma"
  by (simp add: Option_Price_implied_P_def put_price_parity)

subsection \<open>Bounds on the normal distribution\<close>

lemma norm_pdf_antimono:
  assumes "0 \<le> x" "x \<le> y"
  shows "norm_pdf y \<le> norm_pdf x"
proof -
  have "x\<^sup>2 \<le> y\<^sup>2" using assms by (simp add: power_mono)
  then show ?thesis by (simp add: norm_pdf_def divide_right_mono)
qed

lemma sqrt_2pi_ge_2: "2 \<le> sqrt (2 * pi)"
proof -
  have "(4::real) \<le> 2 * pi" using pi_ge_two by simp
  then have "sqrt 4 \<le> sqrt (2 * pi)" by (simp only: real_sqrt_le_iff)
  then show ?thesis by simp
qed

lemma norm_pdf_le_half: "norm_pdf x \<le> 1 / 2"
proof -
  have "exp (- (x\<^sup>2) / 2) \<le> 1" by simp
  then have "norm_pdf x \<le> 1 / sqrt (2 * pi)"
    unfolding norm_pdf_def by (intro divide_right_mono) simp_all
  also have "\<dots> \<le> 1 / 2"
    using sqrt_2pi_ge_2 by (intro divide_left_mono) simp_all
  finally show ?thesis .
qed

lemma norm_cdf_diff_le:
  assumes "0 \<le> x" "x \<le> y"
  shows "norm_cdf y - norm_cdf x \<le> (y - x) * norm_pdf x"
proof -
  have "norm_pdf x * x - norm_cdf x \<le> norm_pdf x * y - norm_cdf y"
  proof (rule DERIV_nonneg_imp_nondecreasing [OF assms(2)])
    fix t assume "x \<le> t" "t \<le> y"
    then have "norm_pdf t \<le> norm_pdf x" using assms(1) by (intro norm_pdf_antimono)
    moreover have "DERIV (\<lambda>t. norm_pdf x * t - norm_cdf t) t :> norm_pdf x * 1 - norm_pdf t"
      by (intro DERIV_diff DERIV_cmult DERIV_ident DERIV_norm_cdf)
    ultimately show "\<exists>d. DERIV (\<lambda>t. norm_pdf x * t - norm_cdf t) t :> d \<and> 0 \<le> d"
      by (intro exI [of _ "norm_pdf x * 1 - norm_pdf t"]) simp
  qed
  then show ?thesis by (simp add: algebra_simps)
qed

lemma norm_cdf_diff_ge:
  assumes "0 \<le> x" "x \<le> y"
  shows "(y - x) * norm_pdf y \<le> norm_cdf y - norm_cdf x"
proof -
  have "norm_cdf x - norm_pdf y * x \<le> norm_cdf y - norm_pdf y * y"
  proof (rule DERIV_nonneg_imp_nondecreasing [OF assms(2)])
    fix t assume "x \<le> t" "t \<le> y"
    then have "norm_pdf y \<le> norm_pdf t" using assms(1) by (intro norm_pdf_antimono) simp_all
    moreover have "DERIV (\<lambda>t. norm_cdf t - norm_pdf y * t) t :> norm_pdf t - norm_pdf y * 1"
      by (intro DERIV_diff DERIV_cmult DERIV_ident DERIV_norm_cdf)
    ultimately show "\<exists>d. DERIV (\<lambda>t. norm_cdf t - norm_pdf y * t) t :> d \<and> 0 \<le> d"
      by (intro exI [of _ "norm_pdf t - norm_pdf y * 1"]) simp
  qed
  then show ?thesis by (simp add: algebra_simps)
qed

subsection \<open>The loop\<close>

lemma vol_loop_from:
  assumes "\<forall>j. k \<le> j \<and> j < 1000 \<longrightarrow> price (real j / 1000) = Inr (pv (real j / 1000))"
    and "k \<le> 1000"
  shows "vol_loop price msg P (real k / 1000) =
    Inr (case find (\<lambda>sigma. P - pv sigma < 1 / 1000) (map (\<lambda>j. real j / 1000) [k..<1000]) of
           Some sigma \<Rightarrow> Float sigma | None \<Rightarrow> Str msg)"
  using assms
proof (induction "1000 - k" arbitrary: k)
  case 0
  then have "k = 1000" by simp
  then show ?case by (simp add: vol_loop.simps)
next
  case (Suc n)
  then have k: "k < 1000" by simp
  then have lt: "real k / 1000 < 1" by simp
  have pk: "price (real k / 1000) = Inr (pv (real k / 1000))" using Suc.prems k by simp
  have step: "real k / 1000 + 1 / 1000 = real (Suc k) / 1000" by (simp add: field_simps)
  have up: "[k..<1000] = k # [Suc k..<1000]" using k by (rule upt_conv_Cons)
  have ih: "vol_loop price msg P (real (Suc k) / 1000) =
    Inr (case find (\<lambda>sigma. P - pv sigma < 1 / 1000) (map (\<lambda>j. real j / 1000) [Suc k..<1000]) of
           Some sigma \<Rightarrow> Float sigma | None \<Rightarrow> Str msg)"
  proof (rule Suc.hyps(1))
    show "n = 1000 - Suc k" using Suc.hyps(2) by simp
    show "\<forall>j. Suc k \<le> j \<and> j < 1000 \<longrightarrow> price (real j / 1000) = Inr (pv (real j / 1000))"
      using Suc.prems(1) by simp
    show "Suc k \<le> 1000" using k by simp
  qed
  have a: "vol_loop price msg P (real k / 1000) =
    (if P - pv (real k / 1000) < 1 / 1000 then Inr (Float (real k / 1000))
     else Inr (case find (\<lambda>sigma. P - pv sigma < 1 / 1000)
                      (map (\<lambda>j. real j / 1000) [Suc k..<1000]) of
                 Some sigma \<Rightarrow> Float sigma | None \<Rightarrow> Str msg))"
    by (subst vol_loop.simps) (simp only: lt pk step if_True sum.case ih)
  show ?case by (simp add: a up)
qed

lemma vol_loop_scan:
  assumes "\<And>sigma. 0 < sigma \<Longrightarrow> price sigma = Inr (pv sigma)"
  shows "vol_loop price msg P (1 / 1000) =
    Inr (linear_scan_spec (\<lambda>sigma. P - pv sigma < 1 / 1000) (Str msg))"
proof -
  have "\<forall>j. 1 \<le> j \<and> j < 1000 \<longrightarrow> price (real j / 1000) = Inr (pv (real j / 1000))"
    by (simp add: assms)
  from vol_loop_from [OF this, of msg P] show ?thesis
    by (simp add: linear_scan_spec_def scan_grid_def)
qed

lemma scan_grid_nth: "i < 999 \<Longrightarrow> scan_grid ! i = real (Suc i) / 1000"
  by (simp add: scan_grid_def)

lemma scan_grid_length: "length scan_grid = 999"
  by (simp add: scan_grid_def)

lemma scan_first_hit:
  assumes "1 \<le> m" "m < 1000" "hit (real m / 1000)"
    and "\<And>j. 1 \<le> j \<Longrightarrow> j < m \<Longrightarrow> \<not> hit (real j / 1000)"
  shows "linear_scan_spec hit nf = Float (real m / 1000)"
proof -
  have "find hit scan_grid = Some (real m / 1000)"
    unfolding find_Some_iff
  proof (intro exI [of _ "m - 1"] conjI allI impI)
    show "m - 1 < length scan_grid" using assms(1,2) by (simp add: scan_grid_length)
    have "m - 1 < 999" using assms(1,2) by simp
    then have "scan_grid ! (m - 1) = real (Suc (m - 1)) / 1000" by (rule scan_grid_nth)
    then show e: "real m / 1000 = scan_grid ! (m - 1)" using assms(1) by simp
    then show "hit (scan_grid ! (m - 1))" using assms(3) by simp
    fix j assume j: "j < m - 1"
    then have "j < 999" using assms(2) by simp
    then have e: "scan_grid ! j = real (Suc j) / 1000" by (rule scan_grid_nth)
    have "\<not> hit (real (Suc j) / 1000)" using j by (intro assms(4)) simp_all
    then show "\<not> hit (scan_grid ! j)" unfolding e .
  qed
  then show ?thesis by (simp add: linear_scan_spec_def)
qed

lemma scan_no_hit:
  assumes "\<And>j. 1 \<le> j \<Longrightarrow> j < 1000 \<Longrightarrow> \<not> hit (real j / 1000)"
  shows "linear_scan_spec hit nf = nf"
proof -
  have "\<not> hit x" if "x \<in> set scan_grid" for x
    using that assms by (auto simp: scan_grid_def)
  then have "find hit scan_grid = None" by (simp add: find_None_iff)
  then show ?thesis by (simp add: linear_scan_spec_def)
qed

lemma scan_hit_before:
  assumes "1 \<le> m" "m < 1000" "hit (real m / 1000)"
  shows "\<exists>sigma. linear_scan_spec hit nf = Float sigma \<and> sigma \<in> set scan_grid
           \<and> sigma \<le> real m / 1000 \<and> hit sigma"
proof -
  have m: "real m / 1000 \<in> set scan_grid" using assms(1,2) by (simp add: scan_grid_def)
  then have "find hit scan_grid \<noteq> None" using assms(3) by (auto simp: find_None_iff)
  then obtain s where s: "find hit scan_grid = Some s" by auto
  then obtain i where i: "i < length scan_grid" "hit (scan_grid ! i)" "s = scan_grid ! i"
    "\<forall>j<i. \<not> hit (scan_grid ! j)"
    unfolding find_Some_iff by blast
  have "i \<le> m - 1"
  proof (rule ccontr)
    assume "\<not> i \<le> m - 1"
    then have "m - 1 < i" by simp
    then have "\<not> hit (scan_grid ! (m - 1))" using i(4) by simp
    moreover have "scan_grid ! (m - 1) = real (Suc (m - 1)) / 1000"
      using assms(1,2) by (intro scan_grid_nth) simp
    moreover have "Suc (m - 1) = m" using assms(1) by simp
    ultimately have "\<not> hit (real m / 1000)" by metis
    then show False using assms(3) by contradiction
  qed
  moreover have "s = real (Suc i) / 1000" using i(1,3) by (simp add: scan_grid_length scan_grid_nth)
  ultimately have "s \<le> real m / 1000" using assms(1) by simp
  moreover have "s \<in> set scan_grid" using i(1,3) by simp
  ultimately show ?thesis using s i(2,3) by (simp add: linear_scan_spec_def)
qed

lemma implied_volatility_scan:
  assumes "0 < S" "0 < K" "0 < T" "option g = Some opt"
  shows "implied_volatility g P S K T r =
    Inr (linear_scan_spec
          (\<lambda>sigma. P - (if opt = ''C'' then call_val S K T r sigma
                         else K * exp (- r * T) - S + call_val S K T r sigma) < 1 / 1000)
          (Str (if opt = ''C'' then ''It could not find the right volatility of the call option.''
                else ''It could not find the right volatility of the put option.'')))"
proof (cases "opt = ''C''")
  case True
  have "Option_Price_implied_C S K T r sigma = Inr (call_val S K T r sigma)" if "0 < sigma" for sigma
    using assms that by (simp add: Option_Price_implied_C_def call_val_def d1_Inr d2_Inr ebind_def)
  from vol_loop_scan [of "Option_Price_implied_C S K T r" "call_val S K T r", OF this]
  show ?thesis using True assms(4) by (simp add: implied_volatility_def)
next
  case False
  have "Option_Price_implied_P S K T r sigma = Inr (K * exp (- r * T) - S + call_val S K T r sigma)"
    if "0 < sigma" for sigma
    using assms that by (simp add: Option_Price_implied_P_def call_price_Inr ebind_def)
  from vol_loop_scan [of "Option_Price_implied_P S K T r"
      "\<lambda>sigma. K * exp (- r * T) - S + call_val S K T r sigma", OF this]
  show ?thesis using False assms(4) by (simp add: implied_volatility_def)
qed


subsection \<open>Pricing formulas\<close>

text \<open>
  Claim C1 says that for positive \<open>S\<close>, \<open>K\<close>, \<open>T\<close>, \<open>sigma\<close> the function
  \<^verbatim>\<open>call_price\<close> returns the call formula of the specification, and \<^verbatim>\<open>put_price\<close>
  the put formula. The notebook declares \<^verbatim>\<open>d1(S,T,K,r,sigma)\<close> and calls it as
  \<^verbatim>\<open>d1(S,K,T,r,sigma)\<close>, so strike and time change places inside \<open>d1\<close> and \<open>d2\<close>. At
  \<open>S = 4\<close>, \<open>K = 1\<close>, \<open>T = 2\<close>, \<open>r = - ln 2\<close>, \<open>sigma = 1\<close> the notebook computes
  \<open>d1 = 1/2\<close> and returns \<open>8 \<Phi>(1/2) - 4\<close>, where the formula of the specification has
  \<open>d1 = 1/\<surd>2\<close> and the value \<open>8 \<Phi>(1/\<surd>2) - 4\<close>; the two differ.
\<close>

theorem call_price_differs_from_spec_formula:
  "call_price 4 1 2 (- ln 2) 1 = Inr (8 * norm_cdf (1 / 2) - 4)
   \<and> spec_call_price 4 1 2 (- ln 2) 1 = 8 * norm_cdf (1 / sqrt 2) - 4
   \<and> call_price 4 1 2 (- ln 2) 1 \<noteq> Inr (spec_call_price 4 1 2 (- ln 2) 1)"
proof -
  have e: "exp (ln 2 * 2) = (4::real)"
  proof -
    have "exp (ln 2 * 2) = exp (ln (2::real)) * exp (ln 2)"
      by (simp only: mult_2_right exp_add)
    then show ?thesis by simp
  qed
  have l4: "ln (4::real) = 2 * ln 2"
    using ln_realpow [of 2 2] by simp
  have c: "call_price 4 1 2 (- ln 2) 1 = Inr (8 * norm_cdf (1 / 2) - 4)"
    using e by (simp add: call_price_Inr call_val_def d1_val_def d2_val_def norm_cdf_minus
        algebra_simps)
  have d: "spec_d1 4 1 2 (- ln 2) 1 = 1 / sqrt 2"
    by (simp add: spec_d1_def l4 algebra_simps)
  have "1 / sqrt 2 - sqrt 2 = - (1 / sqrt (2::real))"
    by (simp add: field_simps)
  then have "spec_d2 4 1 2 (- ln 2) 1 = - (1 / sqrt 2)"
    by (simp only: spec_d2_def d)
  then have s: "spec_call_price 4 1 2 (- ln 2) 1 = 8 * norm_cdf (1 / sqrt 2) - 4"
    using e d by (simp add: spec_call_price_def norm_cdf_minus algebra_simps)
  have "(1::real) / 2 < 1 / sqrt 2"
    by (simp add: field_simps real_less_lsqrt)
  then have "norm_cdf (1 / 2) < norm_cdf (1 / sqrt 2)" by (rule norm_cdf_strict_mono)
  then show ?thesis using c s by simp
qed

subsection \<open>Inputs outside the domain\<close>

text \<open>
  Claim C3 says that pricing fails with a domain error whenever \<open>T \<le> 0\<close> or
  \<open>sigma \<le> 0\<close>. The notebook validates nothing; what fails is the arithmetic. With a
  negative volatility nothing fails: at \<open>S = K = T = 1\<close>, \<open>r = 0\<close>, \<open>sigma = -1\<close> the
  call price is the number \<open>\<Phi>(-1/2) - \<Phi>(1/2)\<close>.
\<close>

theorem call_price_negative_sigma_returns:
  "call_price 1 1 1 0 (- 1) = Inr (norm_cdf (- (1 / 2)) - norm_cdf (1 / 2))"
  by (simp add: call_price_Inr call_val_def d1_val_def d2_val_def)

text \<open>
  Claim C3, amended: for \<open>S > 0\<close> and \<open>K > 0\<close>, \<^verbatim>\<open>call_price\<close> and \<^verbatim>\<open>put_price\<close> raise
  \<^verbatim>\<open>ZeroDivisionError\<close> when \<open>T = 0\<close>, \<^verbatim>\<open>ValueError\<close> when \<open>T < 0\<close>, and
  \<^verbatim>\<open>ZeroDivisionError\<close> when \<open>T > 0\<close> and \<open>sigma = 0\<close>; when \<open>T > 0\<close> and \<open>sigma < 0\<close>
  both return a number.
\<close>

theorem price_outside_domain:
  assumes "0 < S" "0 < K"
  shows "(T = 0 \<longrightarrow> call_price S K T r sigma = Inl ZeroDivisionError
            \<and> put_price S K T r sigma = Inl ZeroDivisionError)
       \<and> (T < 0 \<longrightarrow> call_price S K T r sigma = Inl ValueError
            \<and> put_price S K T r sigma = Inl ValueError)
       \<and> (0 < T \<and> sigma = 0 \<longrightarrow> call_price S K T r sigma = Inl ZeroDivisionError
            \<and> put_price S K T r sigma = Inl ZeroDivisionError)
       \<and> (0 < T \<and> sigma < 0 \<longrightarrow> (\<exists>c p. call_price S K T r sigma = Inr c
            \<and> put_price S K T r sigma = Inr p))"
proof (intro conjI impI)
  assume "T = 0"
  then show "call_price S K T r sigma = Inl ZeroDivisionError"
    and "put_price S K T r sigma = Inl ZeroDivisionError"
    by (simp_all add: call_price_def put_price_def d1_def d2_def ebind_def py_div_def)
next
  assume "T < 0"
  then have "S / T \<le> 0" using assms by (simp add: divide_le_0_iff)
  then show "call_price S K T r sigma = Inl ValueError"
    and "put_price S K T r sigma = Inl ValueError"
    using \<open>T < 0\<close>
    by (simp_all add: call_price_def put_price_def d1_def d2_def ebind_def py_div_def py_log_def)
next
  assume "0 < T \<and> sigma = 0"
  then have "\<not> S / T \<le> 0" "T \<noteq> 0" "sigma = 0" using assms by (simp_all add: divide_le_0_iff)
  then show "call_price S K T r sigma = Inl ZeroDivisionError"
    and "put_price S K T r sigma = Inl ZeroDivisionError"
    using assms
    by (simp_all add: call_price_def put_price_def d1_def d2_def ebind_def py_div_def py_log_def
        py_sqrt_def)
next
  assume "0 < T \<and> sigma < 0"
  then show "\<exists>c p. call_price S K T r sigma = Inr c \<and> put_price S K T r sigma = Inr p"
    using assms by (simp add: call_price_Inr put_price_Inr)
qed

theorem price_outside_domain_witness:
  "(0::real) < 100 \<and> (0::real) < 105
   \<and> call_price 100 105 0 (1 / 20) (1 / 5) = Inl ZeroDivisionError
   \<and> put_price 100 105 (- 1) (1 / 20) (1 / 5) = Inl ValueError
   \<and> call_price 100 105 1 (1 / 20) 0 = Inl ZeroDivisionError
   \<and> (\<exists>c p. call_price 100 105 1 (1 / 20) (- (1 / 5)) = Inr c
        \<and> put_price 100 105 1 (1 / 20) (- (1 / 5)) = Inr p)"
  using price_outside_domain [of 100 105 0 "1 / 20" "1 / 5"]
    price_outside_domain [of 100 105 "- 1" "1 / 20" "1 / 5"]
    price_outside_domain [of 100 105 1 "1 / 20" 0]
    price_outside_domain [of 100 105 1 "1 / 20" "- (1 / 5)"]
  by simp

subsection \<open>Identities between call and put\<close>

text \<open>
  Claim C4, put-call parity: for positive \<open>S\<close>, \<open>K\<close>, \<open>T\<close>, \<open>sigma\<close> and every \<open>r\<close>, both
  prices are returned and call minus put is \<open>S - K exp(-r T)\<close>.
\<close>

theorem put_call_parity:
  assumes "0 < S" "0 < K" "0 < T" "0 < sigma"
  shows "\<exists>c p. call_price S K T r sigma = Inr c \<and> put_price S K T r sigma = Inr p
           \<and> c - p = S - K * exp (- r * T)"
  using assms by (simp add: put_price_parity call_price_Inr ebind_def)

theorem put_call_parity_witness:
  "(0::real) < 100 \<and> (0::real) < 105 \<and> (0::real) < 1 / 2 \<and> (0::real) < 1 / 5
   \<and> (\<exists>c p. call_price 100 105 (1 / 2) (1 / 20) (1 / 5) = Inr c
         \<and> put_price 100 105 (1 / 2) (1 / 20) (1 / 5) = Inr p
         \<and> c - p = 100 - 105 * exp (- (1 / 20) * (1 / 2)))"
  using put_call_parity [of 100 105 "1 / 2" "1 / 5" "1 / 20"] by simp

text \<open>
  Claim C7: for positive \<open>S\<close>, \<open>K\<close>, \<open>T\<close>, \<open>sigma\<close>, \<^verbatim>\<open>call_gamma\<close> and \<^verbatim>\<open>put_gamma\<close>
  return the same number, and so do \<^verbatim>\<open>call_vega\<close> and \<^verbatim>\<open>put_vega\<close>.
\<close>

theorem gamma_vega_call_eq_put:
  assumes "0 < S" "0 < K" "0 < T" "0 < sigma"
  shows "call_gamma S K T r sigma = put_gamma S K T r sigma
       \<and> put_gamma S K T r sigma = Inr (norm_pdf (d1_val S K T r sigma) / (S * sigma * sqrt T))
       \<and> call_vega S K T r sigma = put_vega S K T r sigma
       \<and> put_vega S K T r sigma = Inr (1 / 100 * (S * norm_pdf (d1_val S K T r sigma) * sqrt T))"
  using assms
  by (simp add: call_gamma_def put_gamma_def call_vega_def put_vega_def d1_Inr ebind_def
      py_sqrt_def py_div_def)

theorem gamma_vega_call_eq_put_witness:
  "(0::real) < 100 \<and> (0::real) < 105 \<and> (0::real) < 1 / 2 \<and> (0::real) < 1 / 5
   \<and> call_gamma 100 105 (1 / 2) (1 / 20) (1 / 5) = put_gamma 100 105 (1 / 2) (1 / 20) (1 / 5)
   \<and> call_vega 100 105 (1 / 2) (1 / 20) (1 / 5) = put_vega 100 105 (1 / 2) (1 / 20) (1 / 5)"
  using gamma_vega_call_eq_put [of 100 105 "1 / 2" "1 / 5" "1 / 20"] by simp

text \<open>
  Claim C9: for positive \<open>S\<close>, \<open>K\<close>, \<open>T\<close>, \<open>sigma\<close>, the call delta is \<open>\<Phi>\<close> of the value
  that \<^verbatim>\<open>d1\<close> returns, and the put delta is the call delta minus one.
\<close>

theorem put_delta_eq_call_delta_minus_one:
  assumes "0 < S" "0 < K" "0 < T" "0 < sigma"
  shows "\<exists>c. call_delta S K T r sigma = Inr c \<and> put_delta S K T r sigma = Inr (c - 1)
           \<and> c = norm_cdf (d1_val S K T r sigma)"
  using assms by (simp add: call_delta_def put_delta_def d1_Inr ebind_def norm_cdf_minus)

theorem put_delta_eq_call_delta_minus_one_witness:
  "(0::real) < 100 \<and> (0::real) < 105 \<and> (0::real) < 1 / 2 \<and> (0::real) < 1 / 5
   \<and> (\<exists>c. call_delta 100 105 (1 / 2) (1 / 20) (1 / 5) = Inr c
         \<and> put_delta 100 105 (1 / 2) (1 / 20) (1 / 5) = Inr (c - 1)
         \<and> c = norm_cdf (d1_val 100 105 (1 / 2) (1 / 20) (1 / 5)))"
  using put_delta_eq_call_delta_minus_one [of 100 105 "1 / 2" "1 / 5" "1 / 20"] by simp

text \<open>
  Claim C10: the price expression of the put branch of \<^verbatim>\<open>implied_volatility\<close>,
  \<^verbatim>\<open>K*exp(-r*T)-S+call_price(S,K,T,r,sigma)\<close>, returns for positive \<open>S\<close>, \<open>K\<close>, \<open>T\<close>,
  \<open>sigma\<close> the number that \<^verbatim>\<open>put_price\<close> returns; hence the put branch is the scan
  against \<^verbatim>\<open>put_price\<close>.
\<close>

theorem put_branch_searches_put_price:
  assumes "0 < S" "0 < K" "0 < T" "0 < sigma"
  shows "(\<exists>p. Option_Price_implied_P S K T r sigma = Inr p \<and> put_price S K T r sigma = Inr p)
       \<and> (option g = Some opt \<and> opt \<noteq> ''C'' \<longrightarrow>
            implied_volatility g Option_Price S K T r =
            vol_loop (put_price S K T r)
              ''It could not find the right volatility of the put option.'' Option_Price (1 / 1000))"
proof -
  have "Option_Price_implied_P S K T r = put_price S K T r"
    by (rule ext) (rule implied_P_eq_put_price)
  then show ?thesis
    using assms by (simp add: implied_volatility_def put_price_Inr)
qed

theorem put_branch_searches_put_price_witness:
  "(0::real) < 100 \<and> (0::real) < 105 \<and> (0::real) < 1 / 2 \<and> (0::real) < 1 / 5
   \<and> option \<lparr>option = Some ''P''\<rparr> = Some ''P'' \<and> ''P'' \<noteq> ''C''
   \<and> (\<exists>p. Option_Price_implied_P 100 105 (1 / 2) (1 / 20) (1 / 5) = Inr p
         \<and> put_price 100 105 (1 / 2) (1 / 20) (1 / 5) = Inr p)
   \<and> implied_volatility \<lparr>option = Some ''P''\<rparr> 7 100 105 (1 / 2) (1 / 20) =
       vol_loop (put_price 100 105 (1 / 2) (1 / 20))
         ''It could not find the right volatility of the put option.'' 7 (1 / 1000)"
  using put_branch_searches_put_price
    [of 100 105 "1 / 2" "1 / 5" "1 / 20" "\<lparr>option = Some ''P''\<rparr>" "''P''" 7]
  by simp

subsection \<open>The linear scan\<close>

text \<open>
  Claim C2: for positive \<open>S\<close>, \<open>K\<close>, \<open>T\<close>, every \<open>r\<close> and every observed price,
  \<^verbatim>\<open>implied_volatility\<close> returns the first point \<open>sigma\<close> of the grid
  \<open>0.001, 0.002, ..., 0.999\<close> at which observed price minus model price is below \<open>0.001\<close>
  (a one-sided test), and its not-found message when no grid point passes, that is once
  \<open>sigma\<close> has reached \<open>1.0\<close>. The model price is the one the notebook computes: the call
  expression when \<^verbatim>\<open>option\<close> is \<^verbatim>\<open>'C'\<close>, and \<^verbatim>\<open>K*exp(-r*T)-S+call_price\<close> otherwise.
\<close>

theorem implied_volatility_linear_scan:
  assumes "0 < S" "0 < K" "0 < T" "option g = Some opt"
  shows "implied_volatility g P S K T r =
    Inr (linear_scan_spec
          (\<lambda>sigma. P - (if opt = ''C'' then call_val S K T r sigma
                         else K * exp (- r * T) - S + call_val S K T r sigma) < 1 / 1000)
          (Str (if opt = ''C'' then ''It could not find the right volatility of the call option.''
                else ''It could not find the right volatility of the put option.'')))"
  using assms by (rule implied_volatility_scan)

theorem implied_volatility_linear_scan_witness:
  "(0::real) < 100 \<and> (0::real) < 105 \<and> (0::real) < 1 / 2
   \<and> option \<lparr>option = Some ''C''\<rparr> = Some ''C''
   \<and> implied_volatility \<lparr>option = Some ''C''\<rparr> 7 100 105 (1 / 2) (1 / 20) =
       Inr (linear_scan_spec (\<lambda>sigma. 7 - call_val 100 105 (1 / 2) (1 / 20) sigma < 1 / 1000)
             (Str ''It could not find the right volatility of the call option.''))"
  using implied_volatility_linear_scan
    [of 100 105 "1 / 2" "\<lparr>option = Some ''C''\<rparr>" "''C''" 7 "1 / 20"]
  by simp

subsection \<open>Round trip\<close>

lemma call_val_unit: "sigma \<noteq> 0 \<Longrightarrow> call_val 1 1 1 0 sigma = 2 * norm_cdf (sigma / 2) - 1"
proof -
  assume s: "sigma \<noteq> 0"
  then have d: "d1_val 1 1 1 0 sigma = sigma / 2" "d2_val 1 1 1 0 sigma = - (sigma / 2)"
    by (simp_all add: d1_val_def d2_val_def power2_eq_square)
  show ?thesis unfolding call_val_def d by (simp add: norm_cdf_minus)
qed

lemma norm_pdf_quarter_ge: "1 / 3 \<le> norm_pdf (1 / 4)"
proof -
  have "2 * pi \<le> (29 / 10)\<^sup>2" using pi_less_4 by (simp add: power2_eq_square)
  then have "sqrt (2 * pi) \<le> 29 / 10" by (intro real_le_lsqrt) simp_all
  moreover have "1 + (- (1 / 32)) \<le> exp (- (1 / 32) :: real)" by (rule exp_ge_add_one_self)
  ultimately have "sqrt (2 * pi) \<le> 3 * exp (- (1 / 32))" by simp
  then show ?thesis by (simp add: norm_pdf_def power2_eq_square field_simps)
qed

text \<open>
  Claim C6 says that the solver, applied to the price computed at a grid point
  \<open>sigma0\<close>, returns a volatility within \<open>0.001\<close> of \<open>sigma0\<close>. The stopping test
  compares prices, not volatilities. At \<open>S = K = T = 1\<close>, \<open>r = 0\<close>, \<open>sigma0 = 0.5\<close> the
  call price is \<open>2 \<Phi>(1/4) - 1\<close>; the scan stops at \<open>0.498\<close>, where the model price is
  already less than \<open>0.001\<close> below it, and \<open>0.498\<close> is \<open>0.002\<close> away from \<open>0.5\<close>.
\<close>

theorem round_trip_misses_sigma0:
  "call_price 1 1 1 0 (1 / 2) = Inr (2 * norm_cdf (1 / 4) - 1)
   \<and> implied_volatility \<lparr>option = Some ''C''\<rparr> (2 * norm_cdf (1 / 4) - 1) 1 1 1 0
       = Inr (Float (498 / 1000))
   \<and> \<not> \<bar>498 / 1000 - 1 / 2\<bar> \<le> (1 / 1000 :: real)"
proof -
  let ?hit = "\<lambda>sigma. 2 * norm_cdf (1 / 4) - 1 - (if ''C'' = ''C'' then call_val 1 1 1 0 sigma
      else 1 * exp (- 0 * 1) - 1 + call_val 1 1 1 0 sigma) < 1 / 1000"
  have hit_iff: "?hit sigma \<longleftrightarrow> norm_cdf (1 / 4) - norm_cdf (sigma / 2) < 1 / 2000"
    if "sigma \<noteq> 0" for sigma
    using that by (simp add: call_val_unit mult.commute)
  have h: "?hit (real 498 / 1000)"
  proof -
    have "norm_cdf (1 / 4) - norm_cdf (249 / 1000) \<le> (1 / 4 - 249 / 1000) * norm_pdf (249 / 1000)"
      by (rule norm_cdf_diff_le) simp_all
    moreover have "norm_pdf (249 / 1000) < 1 / 2"
    proof -
      have "exp (- ((249 / 1000)\<^sup>2) / 2) < (1::real)" by simp
      then have "norm_pdf (249 / 1000) < 1 / sqrt (2 * pi)"
        unfolding norm_pdf_def by (intro divide_strict_right_mono) simp_all
      also have "\<dots> \<le> 1 / 2" using sqrt_2pi_ge_2 by (intro divide_left_mono) simp_all
      finally show ?thesis .
    qed
    ultimately have "norm_cdf (1 / 4) - norm_cdf (249 / 1000) < 1 / 2000" by simp
    then show ?thesis by (subst hit_iff) simp_all
  qed
  have n: "\<not> ?hit (real j / 1000)" if "1 \<le> j" "j < 498" for j
  proof -
    have j: "real j / 1000 / 2 \<le> 497 / 2000" using that by simp
    then have "norm_cdf (real j / 1000 / 2) \<le> norm_cdf (497 / 2000)" by (rule norm_cdf_mono)
    moreover have "(1 / 4 - 497 / 2000) * norm_pdf (1 / 4) \<le> norm_cdf (1 / 4) - norm_cdf (497 / 2000)"
      by (rule norm_cdf_diff_ge) simp_all
    ultimately have "1 / 2000 \<le> norm_cdf (1 / 4) - norm_cdf (real j / 1000 / 2)"
      using norm_pdf_quarter_ge by simp
    moreover have "real j / 1000 \<noteq> 0" using that by simp
    ultimately show ?thesis by (subst hit_iff) simp_all
  qed
  have "linear_scan_spec ?hit (Str (if ''C'' = ''C''
      then ''It could not find the right volatility of the call option.''
      else ''It could not find the right volatility of the put option.'')) = Float (real 498 / 1000)"
  proof (rule scan_first_hit [of 498 ?hit])
    show "?hit (real 498 / 1000)" by (rule h)
    show "\<not> ?hit (real j / 1000)" if "1 \<le> j" "j < 498" for j using that by (rule n)
  qed simp_all
  moreover have "implied_volatility \<lparr>option = Some ''C''\<rparr> (2 * norm_cdf (1 / 4) - 1) 1 1 1 0 =
    Inr (linear_scan_spec ?hit (Str (if ''C'' = ''C''
      then ''It could not find the right volatility of the call option.''
      else ''It could not find the right volatility of the put option.'')))"
    by (rule implied_volatility_scan) simp_all
  moreover have "call_price 1 1 1 0 (1 / 2) = Inr (2 * norm_cdf (1 / 4) - 1)"
    by (simp add: call_price_Inr call_val_unit)
  ultimately show ?thesis by simp
qed

text \<open>
  Claim C6, amended: for positive \<open>S\<close>, \<open>K\<close>, \<open>T\<close> and a grid point
  \<open>sigma0 = k/1000\<close> with \<open>1 \<le> k \<le> 999\<close>, the solver applied to the price that
  \<^verbatim>\<open>call_price\<close> (for \<^verbatim>\<open>option == 'C'\<close>) or \<^verbatim>\<open>put_price\<close> (otherwise) returns at
  \<open>sigma0\<close> does not report not-found: it returns a grid point \<open>sigma \<le> sigma0\<close> whose
  price is less than \<open>0.001\<close> below the observed price.
\<close>

theorem round_trip_returns_grid_point_below:
  assumes "0 < S" "0 < K" "0 < T" "1 \<le> k" "k < 1000" "option g = Some opt"
    and "(if opt = ''C'' then call_price S K T r (real k / 1000)
          else put_price S K T r (real k / 1000)) = Inr P"
  shows "\<exists>sigma v. implied_volatility g P S K T r = Inr (Float sigma)
           \<and> sigma \<in> set scan_grid \<and> sigma \<le> real k / 1000
           \<and> (if opt = ''C'' then call_price S K T r sigma else put_price S K T r sigma) = Inr v
           \<and> P - v < 1 / 1000"
proof -
  let ?model = "\<lambda>sigma. if opt = ''C'' then call_val S K T r sigma
      else K * exp (- r * T) - S + call_val S K T r sigma"
  let ?hit = "\<lambda>sigma. P - ?model sigma < 1 / 1000"
  let ?nf = "Str (if opt = ''C'' then ''It could not find the right volatility of the call option.''
      else ''It could not find the right volatility of the put option.'')"
  have price: "(if opt = ''C'' then call_price S K T r sigma else put_price S K T r sigma)
      = Inr (?model sigma)" if "0 < sigma" for sigma
    using assms(1-3) that by (simp add: put_price_parity call_price_Inr ebind_def)
  have "0 < real k / 1000" using assms(4) by simp
  from price [OF this] assms(7) have "P = ?model (real k / 1000)" by simp
  then have "?hit (real k / 1000)" by simp
  from scan_hit_before [of k ?hit ?nf, OF assms(4,5) this]
  obtain sigma where s: "linear_scan_spec ?hit ?nf = Float sigma" "sigma \<in> set scan_grid"
    "sigma \<le> real k / 1000" "?hit sigma"
    by blast
  have "0 < sigma" using s(2) by (auto simp: scan_grid_def)
  then have "(if opt = ''C'' then call_price S K T r sigma else put_price S K T r sigma)
      = Inr (?model sigma)"
    by (rule price)
  moreover have "implied_volatility g P S K T r = Inr (Float sigma)"
    using implied_volatility_scan [OF assms(1-3,6), of P r] s(1) by simp
  ultimately show ?thesis using s(2,3,4) by blast
qed

theorem round_trip_returns_grid_point_below_witness:
  "(0::real) < 1 \<and> (1::nat) \<le> 500 \<and> (500::nat) < 1000
   \<and> option \<lparr>option = Some ''C''\<rparr> = Some ''C''
   \<and> call_price 1 1 1 0 (real 500 / 1000) = Inr (call_val 1 1 1 0 (1 / 2))
   \<and> (\<exists>sigma v. implied_volatility \<lparr>option = Some ''C''\<rparr> (call_val 1 1 1 0 (1 / 2)) 1 1 1 0
          = Inr (Float sigma)
        \<and> sigma \<in> set scan_grid \<and> sigma \<le> real 500 / 1000
        \<and> call_price 1 1 1 0 sigma = Inr v \<and> call_val 1 1 1 0 (1 / 2) - v < 1 / 1000)"
  using round_trip_returns_grid_point_below [of 1 1 1 500 "\<lparr>option = Some ''C''\<rparr>" "''C''" 0 "call_val 1 1 1 0 (1 / 2)"]
  by (simp add: call_price_Inr)

subsection \<open>Dependence on the enclosing state\<close>

lemma call_val_1_4_1: "sigma \<noteq> 0 \<Longrightarrow> call_val 1 4 1 0 sigma = 5 * norm_cdf sigma - 4"
proof -
  assume s: "sigma \<noteq> 0"
  have "sqrt 4 = (2::real)" using real_sqrt_abs [of 2] by simp
  with s have d: "d1_val 1 4 1 0 sigma = sigma" "d2_val 1 4 1 0 sigma = - sigma"
    by (simp_all add: d1_val_def d2_val_def power2_eq_square)
  show ?thesis unfolding call_val_def d by (simp add: norm_cdf_minus)
qed

text \<open>
  The option type is not a parameter of \<^verbatim>\<open>implied_volatility\<close>: it is the global
  \<^verbatim>\<open>option\<close>. With the same arguments \<open>Option_Price = 1\<close>, \<open>S = 1\<close>, \<open>K = 4\<close>,
  \<open>T = 1\<close>, \<open>r = 0\<close> the call reports not-found when the global is \<^verbatim>\<open>'C'\<close> and returns
  \<open>0.001\<close> when it is \<^verbatim>\<open>'P'\<close>.
\<close>

lemma implied_volatility_depends_on_global_option:
  "implied_volatility \<lparr>option = Some ''C''\<rparr> 1 1 4 1 0
     = Inr (Str ''It could not find the right volatility of the call option.'')
   \<and> implied_volatility \<lparr>option = Some ''P''\<rparr> 1 1 4 1 0 = Inr (Float (1 / 1000))"
proof -
  let ?nf = "\<lambda>opt. Str (if opt = ''C''
      then ''It could not find the right volatility of the call option.''
      else ''It could not find the right volatility of the put option.'')"
  let ?hit = "\<lambda>opt sigma. 1 - (if opt = ''C'' then call_val 1 4 1 0 sigma
      else 4 * exp (- 0 * 1) - 1 + call_val 1 4 1 0 sigma) < 1 / 1000"
  have "\<not> ?hit ''C'' (real j / 1000)" if "1 \<le> j" "j < 1000" for j
  proof -
    have j: "0 \<le> real j / 1000" "real j / 1000 \<le> 999 / 1000" using that by simp_all
    have "norm_cdf (real j / 1000) - norm_cdf 0 \<le> (real j / 1000 - 0) * norm_pdf 0"
      by (rule norm_cdf_diff_le) (simp_all add: j)
    also have "\<dots> \<le> (999 / 1000) * (1 / 2)"
      using j norm_pdf_le_half [of 0] by (intro mult_mono) (simp_all add: norm_pdf_pos less_imp_le)
    finally have "norm_cdf (real j / 1000) \<le> 4999 / 5000" by (simp add: norm_cdf_zero)
    moreover have "real j / 1000 \<noteq> 0" using that by simp
    ultimately show ?thesis by (simp add: call_val_1_4_1)
  qed
  then have "linear_scan_spec (?hit ''C'') (?nf ''C'') = ?nf ''C''" by (rule scan_no_hit)
  moreover have "implied_volatility \<lparr>option = Some ''C''\<rparr> 1 1 4 1 0
      = Inr (linear_scan_spec (?hit ''C'') (?nf ''C''))"
    by (rule implied_volatility_scan) simp_all
  moreover have "linear_scan_spec (?hit ''P'') (?nf ''P'') = Float (real 1 / 1000)"
  proof (rule scan_first_hit [of 1 "?hit ''P''"])
    have "norm_cdf 0 \<le> norm_cdf (1 / 1000)" by (rule norm_cdf_mono) simp
    then show "?hit ''P'' (real 1 / 1000)" by (simp add: call_val_1_4_1 norm_cdf_zero)
  qed simp_all
  moreover have "implied_volatility \<lparr>option = Some ''P''\<rparr> 1 1 4 1 0
      = Inr (linear_scan_spec (?hit ''P'') (?nf ''P''))"
    by (rule implied_volatility_scan) simp_all
  ultimately show ?thesis by simp
qed


lemma notebook_state_d2_same: "notebook_state_d2 d2 opt = notebook_state opt"
proof -
  have "call_price = (\<lambda>S K T r sigma.
      ebind (d1 S K T r sigma) (\<lambda>a.
      ebind (d2 S K T r sigma) (\<lambda>b.
      Inr (S * norm_cdf a - K * exp (- r * T) * norm_cdf b))))"
    by (intro ext) (simp add: call_price_def)
  then show ?thesis by (simp add: notebook_state_d2_def notebook_state_def)
qed






subsection \<open>Monotonicity in the volatility\<close>

lemma ln2_ge_half: "1 / 2 \<le> ln (2::real)"
proof -
  have "1 + (- (1 / 2)) \<le> exp (- (1 / 2) :: real)" by (rule exp_ge_add_one_self)
  then have "1 / 2 \<le> 1 / exp (1 / 2 :: real)" by (simp add: exp_minus inverse_eq_divide)
  then have "exp (1 / 2 :: real) \<le> 2" by (simp add: field_simps)
  then show ?thesis by (subst ln_ge_iff) simp_all
qed

lemma call_val_4_1_2:
  "sigma \<noteq> 0 \<Longrightarrow> call_val 4 1 2 0 sigma =
     4 * norm_cdf ((ln 2 + sigma\<^sup>2 / 2) / sigma) - norm_cdf ((ln 2 - sigma\<^sup>2 / 2) / sigma)"
  by (simp add: call_val_def d1_val_def d2_val_def)

lemma norm_pdf_ratio:
  assumes "x \<noteq> 0"
  shows "norm_pdf ((ln 2 - x\<^sup>2 / 2) / x) = 2 * norm_pdf ((ln 2 + x\<^sup>2 / 2) / x)"
proof -
  have "((ln 2 + x\<^sup>2 / 2) / x)\<^sup>2 - ((ln 2 - x\<^sup>2 / 2) / x)\<^sup>2 = 2 * ln 2"
    using assms by (simp add: power2_eq_square field_simps)
  then have "- (((ln 2 - x\<^sup>2 / 2) / x)\<^sup>2) / 2 = ln 2 + (- (((ln 2 + x\<^sup>2 / 2) / x)\<^sup>2) / 2)"
    by (simp add: field_simps)
  then have "exp (- (((ln 2 - x\<^sup>2 / 2) / x)\<^sup>2) / 2) = 2 * exp (- (((ln 2 + x\<^sup>2 / 2) / x)\<^sup>2) / 2)"
    by (simp only: exp_add) simp
  then show ?thesis by (simp add: norm_pdf_def)
qed

lemma call_val_4_1_2_deriv:
  assumes "x \<noteq> 0"
  shows "DERIV (\<lambda>s. 4 * norm_cdf ((ln 2 + s\<^sup>2 / 2) / s) - norm_cdf ((ln 2 - s\<^sup>2 / 2) / s)) x
    :> norm_pdf ((ln 2 + x\<^sup>2 / 2) / x) * (3 - 2 * ln 2 / x\<^sup>2)"
proof -
  have a: "DERIV (\<lambda>s. (ln 2 + s\<^sup>2 / 2) / s) x :> 1 / 2 - ln 2 / x\<^sup>2"
    using assms by (auto intro!: derivative_eq_intros simp: power2_eq_square field_simps)
  have b: "DERIV (\<lambda>s. (ln 2 - s\<^sup>2 / 2) / s) x :> - (1 / 2) - ln 2 / x\<^sup>2"
    using assms by (auto intro!: derivative_eq_intros simp: power2_eq_square field_simps)
  have "DERIV (\<lambda>s. 4 * norm_cdf ((ln 2 + s\<^sup>2 / 2) / s) - norm_cdf ((ln 2 - s\<^sup>2 / 2) / s)) x
    :> 4 * (norm_pdf ((ln 2 + x\<^sup>2 / 2) / x) * (1 / 2 - ln 2 / x\<^sup>2))
       - norm_pdf ((ln 2 - x\<^sup>2 / 2) / x) * (- (1 / 2) - ln 2 / x\<^sup>2)"
    by (intro DERIV_diff DERIV_cmult DERIV_chain2 [OF DERIV_norm_cdf] a b)
  moreover have "4 * (norm_pdf ((ln 2 + x\<^sup>2 / 2) / x) * (1 / 2 - ln 2 / x\<^sup>2))
       - norm_pdf ((ln 2 - x\<^sup>2 / 2) / x) * (- (1 / 2) - ln 2 / x\<^sup>2)
     = norm_pdf ((ln 2 + x\<^sup>2 / 2) / x) * (3 - 2 * ln 2 / x\<^sup>2)"
    unfolding norm_pdf_ratio [OF assms] by (simp add: algebra_simps)
  ultimately show ?thesis by simp
qed

text \<open>
  Claim C5 says that the call and put prices are strictly increasing in \<open>sigma\<close>. With
  strike and time exchanged inside \<open>d1\<close> and \<open>d2\<close> this fails for the prices that the
  notebook computes: at \<open>S = 4\<close>, \<open>K = 1\<close>, \<open>T = 2\<close>, \<open>r = 0\<close> the derivative of the call
  price with respect to \<open>sigma\<close> is \<open>\<phi>(d1) (3 - 2 ln 2 / sigma\<^sup>2)\<close>, negative on
  \<open>[1/4, 1/2]\<close>, so the price at \<open>sigma = 1/2\<close> is below the price at \<open>sigma = 1/4\<close>.
\<close>

theorem call_price_decreases_in_sigma:
  "call_price 4 1 2 0 (1 / 4) = Inr (call_val 4 1 2 0 (1 / 4))
   \<and> call_price 4 1 2 0 (1 / 2) = Inr (call_val 4 1 2 0 (1 / 2))
   \<and> call_val 4 1 2 0 (1 / 2) < call_val 4 1 2 0 (1 / 4)"
proof -
  let ?f = "\<lambda>s. 4 * norm_cdf ((ln 2 + s\<^sup>2 / 2) / s) - norm_cdf ((ln 2 - s\<^sup>2 / 2) / s)"
  have "?f (1 / 2) < ?f (1 / 4)"
  proof (rule DERIV_neg_imp_decreasing [of "1 / 4" "1 / 2" ?f])
    fix x :: real assume x: "1 / 4 \<le> x" "x \<le> 1 / 2"
    then have x0: "x \<noteq> 0" "0 < x\<^sup>2" by simp_all
    have "x\<^sup>2 \<le> (1 / 2)\<^sup>2" using x by (intro power_mono) simp_all
    then have "3 * x\<^sup>2 < 2 * (1 / 2)" by (simp add: power2_eq_square)
    also have "\<dots> \<le> 2 * ln 2" using ln2_ge_half by simp
    finally have "3 - 2 * ln 2 / x\<^sup>2 < 0" using x0(2) by (simp add: field_simps)
    then have "norm_pdf ((ln 2 + x\<^sup>2 / 2) / x) * (3 - 2 * ln 2 / x\<^sup>2) < 0"
      by (intro mult_pos_neg norm_pdf_pos)
    then show "\<exists>y. DERIV ?f x :> y \<and> y < 0"
      using call_val_4_1_2_deriv [OF x0(1)] by blast
  qed simp
  then have "call_val 4 1 2 0 (1 / 2) < call_val 4 1 2 0 (1 / 4)"
    by (simp add: call_val_4_1_2)
  then show ?thesis by (simp add: call_price_Inr)
qed

end
